theory Spec2Isabelle
  imports Complex_Main
begin

section \<open>Data model\<close>

text \<open>
  Closures supplied by level-authoring code (scene builders, deferred events) and objects
  of classes that live outside the stage (sound handles, scenes) are represented by their
  identity, a natural number.
\<close>

type_synonym builder = nat
type_synonym event = nat
type_synonym sound = nat
type_synonym obj = nat

subsection \<open>Numbers\<close>

text \<open>
  A JavaScript number is an IEEE 754 double. The numbers the stage computes with (the
  elapsed time, the timers of the score, the physics step) are modelled as doubles:
  \<open>Finite m e\<close> is the number \<open>m * 2 ^ e\<close>, \<open>Infinity neg\<close> is minus infinity when \<open>neg\<close>
  holds and plus infinity otherwise. Every operation computes the exact result as a
  fraction of two integers and rounds it to the nearest double, ties to even, with
  gradual underflow and overflow to infinity, as the hardware does. The sign of a zero
  is not kept: none of the operations the stage uses (\<open>-\<close>, \<open>+\<close>, division by 1000 and by
  45, \<open><\<close>, \<open>!=\<close>) can tell the two zeros apart.

  Numbers that the stage only passes on (screen coordinates, accelerometer readings, the
  score deltas of a Goodie) are kept as reals: nothing is computed from them.
\<close>

datatype double = Finite int int | Infinity bool | NaN

text \<open>The number of binary digits of a positive integer.\<close>

function bit_length :: "int \<Rightarrow> int" where
  "bit_length a = (if a \<le> 0 then 0 else 1 + bit_length (a div 2))"
  by pat_completeness auto
termination
  by (relation "measure nat") auto

declare bit_length.simps [simp del]

text \<open>For positive \<open>a\<close> and \<open>q\<close>: the integer \<open>e\<close> with \<open>2 ^ e \<le> a / q < 2 ^ (e + 1)\<close>.\<close>

definition exponent :: "int \<Rightarrow> int \<Rightarrow> int" where
  "exponent a q =
     (let e0 = bit_length a - bit_length q
      in if q * 2 ^ nat e0 \<le> a * 2 ^ nat (- e0) then e0 else e0 - 1)"

text \<open>For positive \<open>d\<close>: the integer nearest to \<open>n / d\<close>, the even one of two equally near.\<close>

definition round_half_even :: "int \<Rightarrow> int \<Rightarrow> int" where
  "round_half_even n d =
     (let f = n div d; r = n mod d
      in if 2 * r < d then f else if d < 2 * r then f + 1 else if even f then f else f + 1)"

text \<open>
  For positive \<open>q\<close>: the double nearest to \<open>p / q\<close>. The result has 53 significant bits, or
  fewer below \<open>2 ^ (- 1022)\<close>, where the spacing stays \<open>2 ^ (- 1074)\<close>; a result of magnitude
  \<open>2 ^ 1024\<close> or more is infinite.
\<close>

definition round_double :: "int \<Rightarrow> int \<Rightarrow> double" where
  "round_double p q =
     (if p = 0 then Finite 0 (- 1074)
      else let a = \<bar>p\<bar>;
               k = max (exponent a q - 52) (- 1074);
               m = round_half_even (a * 2 ^ nat (- k)) (q * 2 ^ nat k);
               m' = (if m = 2 ^ 53 then 2 ^ 52 else m);
               k' = (if m = 2 ^ 53 then k + 1 else k)
           in if 971 < k' then Infinity (p < 0)
              else Finite (if p < 0 then - m' else m') k')"

text \<open>An integer literal of the source.\<close>

definition num :: "int \<Rightarrow> double" where
  "num i = round_double i 1"

fun dsub :: "double \<Rightarrow> double \<Rightarrow> double" where
  "dsub NaN y = NaN"
| "dsub x NaN = NaN"
| "dsub (Infinity a) (Infinity b) = (if a = b then NaN else Infinity a)"
| "dsub (Infinity a) (Finite m e) = Infinity a"
| "dsub (Finite m e) (Infinity b) = Infinity (\<not> b)"
| "dsub (Finite m1 e1) (Finite m2 e2) =
     (let e = min e1 e2
      in round_double ((m1 * 2 ^ nat (e1 - e) - m2 * 2 ^ nat (e2 - e)) * 2 ^ nat e)
           (2 ^ nat (- e)))"

fun dadd :: "double \<Rightarrow> double \<Rightarrow> double" where
  "dadd NaN y = NaN"
| "dadd x NaN = NaN"
| "dadd (Infinity a) (Infinity b) = (if a = b then Infinity a else NaN)"
| "dadd (Infinity a) (Finite m e) = Infinity a"
| "dadd (Finite m e) (Infinity b) = Infinity b"
| "dadd (Finite m1 e1) (Finite m2 e2) =
     (let e = min e1 e2
      in round_double ((m1 * 2 ^ nat (e1 - e) + m2 * 2 ^ nat (e2 - e)) * 2 ^ nat e)
           (2 ^ nat (- e)))"

text \<open>
  Division. A zero divisor is taken as positive; the stage divides by the literals 1000
  and 45 only.
\<close>

fun ddiv :: "double \<Rightarrow> double \<Rightarrow> double" where
  "ddiv NaN y = NaN"
| "ddiv x NaN = NaN"
| "ddiv (Infinity a) (Infinity b) = NaN"
| "ddiv (Infinity a) (Finite m e) = Infinity (a \<noteq> (m < 0))"
| "ddiv (Finite m e) (Infinity b) = Finite 0 (- 1074)"
| "ddiv (Finite m1 e1) (Finite m2 e2) =
     (if m2 = 0 then (if m1 = 0 then NaN else Infinity (m1 < 0))
      else round_double (sgn m2 * m1 * 2 ^ nat (e1 - e2)) (\<bar>m2\<bar> * 2 ^ nat (e2 - e1)))"

text \<open>The comparisons \<open><\<close> and \<open>!=\<close>: with NaN on either side, \<open><\<close> is false and \<open>!=\<close> is true.\<close>

fun dless :: "double \<Rightarrow> double \<Rightarrow> bool" where
  "dless NaN y = False"
| "dless x NaN = False"
| "dless (Infinity a) (Infinity b) = (a \<and> \<not> b)"
| "dless (Infinity a) (Finite m e) = a"
| "dless (Finite m e) (Infinity b) = (\<not> b)"
| "dless (Finite m1 e1) (Finite m2 e2) =
     (let e = min e1 e2 in m1 * 2 ^ nat (e1 - e) < m2 * 2 ^ nat (e2 - e))"

fun dneq :: "double \<Rightarrow> double \<Rightarrow> bool" where
  "dneq NaN y = True"
| "dneq x NaN = True"
| "dneq (Infinity a) (Infinity b) = (a \<noteq> b)"
| "dneq (Infinity a) (Finite m e) = True"
| "dneq (Finite m e) (Infinity b) = True"
| "dneq (Finite m1 e1) (Finite m2 e2) =
     (let e = min e1 e2 in m1 * 2 ^ nat (e1 - e) \<noteq> m2 * 2 ^ nat (e2 - e))"

text \<open>The real number a finite double stands for.\<close>

fun valof :: "double \<Rightarrow> real option" where
  "valof (Finite m e) = Some (of_int (m * 2 ^ nat e) / 2 ^ nat (- e))"
| "valof x = None"

text \<open>The operations are evaluated on numerals, not unfolded.\<close>

declare dsub.simps [simp del] dadd.simps [simp del] ddiv.simps [simp del]
  dless.simps [simp del] dneq.simps [simp del] valof.simps [simp del]

subsection \<open>Score, world and stage\<close>

text \<open>
  Modelled from the spec: the class Score is not among the sources. The spec describes it
  as a record of counters and three timers, each using the sentinel \<open>-100\<close> for
  "inactive", with a \<open>reset()\<close> operation restoring the sentinel values. Only the three
  timers, which are the fields \<open>JetLagStage\<close> reads and writes, are modelled.
\<close>

record Score =
  loseCountDownRemaining :: double
  winCountRemaining :: double
  stopWatchProgress :: double

definition reset :: "Score \<Rightarrow> Score" where
  "reset sc = sc\<lparr>loseCountDownRemaining := num (- 100), winCountRemaining := num (- 100),
                 stopWatchProgress := num (- 100)\<rparr>"

text \<open>
  Modelled from the spec: the class WorldScene is not among the sources. The stage uses
  its two event queues; a newly constructed scene starts with both queues empty.
\<close>

record WorldScene =
  ident :: obj
  oneTimeEvents :: "event list"
  repeatEvents :: "event list"

definition new_WorldScene :: "obj \<Rightarrow> WorldScene" where
  "new_WorldScene n = \<lparr>ident = n, oneTimeEvents = [], repeatEvents = []\<rparr>"

text \<open>
  Every call that \<open>JetLagStage\<close> makes on a collaborator (overlay, HUD, world, parallax
  layers, renderer, sound, device, manager, user callbacks) is recorded, in the order the
  calls are made.
\<close>

datatype gesture = Tap | PanStart | PanMove | PanStop | TouchDown | TouchUp

datatype scene = Overlay obj | Hud obj | World obj

datatype call =
    NewOverlayScene obj
  | NewWorldScene obj
  | NewParallaxScene obj
  | Build builder obj
  | Gesture scene gesture real real
  | Swipe scene real real real real real
  | LoggerInfo scene real real
  | Render scene double
  | BackgroundRender obj double
  | ForegroundRender obj double
  | SetFrameColor nat
  | MusicPlay sound
  | MusicStop sound
  | ConsoleLog string
  | HandleTilt obj real real
  | AdvanceWorld obj double nat nat
  | OneTimeEvent event
  | RepeatEvent event
  | AdjustCamera obj
  | ScoreReset
  | ClearLevelFacts
  | AdvanceLevel
  | RepeatLevel

text \<open>
  The stage after \<open>setScore\<close> and \<open>onScreenChange\<close> have been called, which the
  constructor's comment requires before any other use: world, HUD, score and parallax
  layers are present. \<open>debugMode\<close> is the one field of the configuration the stage reads.
  Three fields are bookkeeping of the model: \<open>next_obj\<close> numbers the objects the stage
  constructs, \<open>calls\<close> is the record of calls on collaborators, and \<open>ended\<close> lists the
  arguments of the invocations of \<open>endLevel\<close>, oldest first.
\<close>

record JetLagStage =
  world :: WorldScene
  hud :: obj
  overlay :: "obj option"
  gestureHudFirst :: bool
  backgroundColor :: nat
  welcomeSceneBuilder :: "builder option"
  winSceneBuilder :: "builder option"
  loseSceneBuilder :: "builder option"
  pauseSceneBuilder :: "builder option"
  score :: Score
  background :: obj
  foreground :: obj
  music :: "sound option"
  musicPlaying :: bool
  projectilePool :: "obj option"
  debugMode :: bool
  next_obj :: obj
  calls :: "call list"
  ended :: "bool list"

text \<open>
  What the collaborators do is outside the sources and is a parameter of the model:
  \<^item> \<open>pushed c\<close>: the one-time events that code running inside the call \<open>c\<close> appends to the
    one-time queue of the current world (a contact handler that defers work during the
    physics step, a callback that schedules another one);
  \<^item> \<open>consumed c\<close>: the boolean a tap handler returns;
  \<^item> \<open>accelerometer\<close>: the reading of the device's accelerometer.
  This is the one way in which code running inside a call acts on the state the stage
  reads. A callback that re-enters the stage while it runs (a builder that calls a setter
  through its OverlayApi, a manager that resets the stage inside \<open>advanceLevel\<close>) is not
  modelled; between two calls of the stage's methods every setter can be used.
\<close>

record env =
  pushed :: "call \<Rightarrow> event list"
  consumed :: "call \<Rightarrow> bool"
  accelerometer :: "real \<times> real"

datatype error = TypeError

section \<open>Goodie\<close>

text \<open>
  The part of a Goodie that its base class WorldActor holds is kept as the arguments the
  constructor passes on: image name, width, height.
\<close>

record Goodie =
  imgName :: string
  width :: real
  height :: real
  onHeroCollect :: "nat option"
  goodie_score :: "real list"

definition new_Goodie :: "real \<Rightarrow> real \<Rightarrow> string \<Rightarrow> Goodie" where
  "new_Goodie w h img =
     \<lparr>imgName = img, width = w, height = h, onHeroCollect = None, goodie_score = [1, 0, 0, 0]\<rparr>"

definition setScore :: "real \<Rightarrow> real \<Rightarrow> real \<Rightarrow> real \<Rightarrow> Goodie \<Rightarrow> Goodie" where
  "setScore v1 v2 v3 v4 g = g\<lparr>goodie_score := [v1, v2, v3, v4]\<rparr>"

section \<open>JetLagStage\<close>

subsection \<open>Calls on collaborators\<close>

definition record_call :: "call \<Rightarrow> JetLagStage \<Rightarrow> JetLagStage" where
  "record_call c s = s\<lparr>calls := calls s @ [c]\<rparr>"

definition push :: "event list \<Rightarrow> JetLagStage \<Rightarrow> JetLagStage" where
  "push es s = s\<lparr>world := (world s)\<lparr>oneTimeEvents := oneTimeEvents (world s) @ es\<rparr>\<rparr>"

definition invoke :: "env \<Rightarrow> call \<Rightarrow> JetLagStage \<Rightarrow> JetLagStage" where
  "invoke E c s = push (pushed E c) (record_call c s)"

subsection \<open>Setters\<close>

definition setWelcomeSceneBuilder :: "builder option \<Rightarrow> JetLagStage \<Rightarrow> JetLagStage" where
  "setWelcomeSceneBuilder b s = s\<lparr>welcomeSceneBuilder := b\<rparr>"

definition setWinSceneBuilder :: "builder option \<Rightarrow> JetLagStage \<Rightarrow> JetLagStage" where
  "setWinSceneBuilder b s = s\<lparr>winSceneBuilder := b\<rparr>"

definition setLoseSceneBuilder :: "builder option \<Rightarrow> JetLagStage \<Rightarrow> JetLagStage" where
  "setLoseSceneBuilder b s = s\<lparr>loseSceneBuilder := b\<rparr>"

definition setPauseSceneBuilder :: "builder option \<Rightarrow> JetLagStage \<Rightarrow> JetLagStage" where
  "setPauseSceneBuilder b s = s\<lparr>pauseSceneBuilder := b\<rparr>"

definition setGestureHudFirst :: "bool \<Rightarrow> JetLagStage \<Rightarrow> JetLagStage" where
  "setGestureHudFirst v s = s\<lparr>gestureHudFirst := v\<rparr>"

definition setBackgroundColor :: "nat \<Rightarrow> JetLagStage \<Rightarrow> JetLagStage" where
  "setBackgroundColor c s = s\<lparr>backgroundColor := c\<rparr>"

definition setMusic :: "sound option \<Rightarrow> JetLagStage \<Rightarrow> JetLagStage" where
  "setMusic m s = s\<lparr>music := m\<rparr>"

definition clearOverlayScene :: "JetLagStage \<Rightarrow> JetLagStage" where
  "clearOverlayScene s = s\<lparr>overlay := None\<rparr>"

subsection \<open>Gestures\<close>

definition tap :: "env \<Rightarrow> real \<Rightarrow> real \<Rightarrow> JetLagStage \<Rightarrow> JetLagStage" where
  "tap E screenX screenY s =
     (case overlay s of
        Some ov \<Rightarrow> invoke E (Gesture (Overlay ov) Tap screenX screenY) s
      | None \<Rightarrow>
          let w = World (ident (world s)); h = Hud (hud s);
              s1 = (if debugMode s
                    then invoke E (LoggerInfo h screenX screenY)
                           (invoke E (LoggerInfo w screenX screenY) s)
                    else s)
          in if gestureHudFirst s1
             then (let s2 = invoke E (Gesture h Tap screenX screenY) s1
                   in if consumed E (Gesture h Tap screenX screenY) then s2
                      else invoke E (Gesture w Tap screenX screenY) s2)
             else (let s2 = invoke E (Gesture w Tap screenX screenY) s1
                   in if consumed E (Gesture w Tap screenX screenY) then s2
                      else invoke E (Gesture h Tap screenX screenY) s2))"

definition panStart :: "env \<Rightarrow> real \<Rightarrow> real \<Rightarrow> JetLagStage \<Rightarrow> JetLagStage" where
  "panStart E screenX screenY s =
     (case overlay s of
        Some ov \<Rightarrow> invoke E (Gesture (Overlay ov) PanStart screenX screenY) s
      | None \<Rightarrow> invoke E (Gesture (Hud (hud s)) PanStart screenX screenY) s)"

definition panMove :: "env \<Rightarrow> real \<Rightarrow> real \<Rightarrow> JetLagStage \<Rightarrow> JetLagStage" where
  "panMove E screenX screenY s =
     (case overlay s of
        Some ov \<Rightarrow> invoke E (Gesture (Overlay ov) PanMove screenX screenY) s
      | None \<Rightarrow> invoke E (Gesture (Hud (hud s)) PanMove screenX screenY) s)"

definition panStop :: "env \<Rightarrow> real \<Rightarrow> real \<Rightarrow> JetLagStage \<Rightarrow> JetLagStage" where
  "panStop E screenX screenY s =
     (case overlay s of
        Some ov \<Rightarrow> invoke E (Gesture (Overlay ov) PanStop screenX screenY) s
      | None \<Rightarrow> invoke E (Gesture (Hud (hud s)) PanStop screenX screenY) s)"

definition touchDown :: "env \<Rightarrow> real \<Rightarrow> real \<Rightarrow> JetLagStage \<Rightarrow> JetLagStage" where
  "touchDown E screenX screenY s =
     (case overlay s of
        Some ov \<Rightarrow> invoke E (Gesture (Overlay ov) TouchDown screenX screenY) s
      | None \<Rightarrow> invoke E (Gesture (Hud (hud s)) TouchDown screenX screenY) s)"

definition touchUp :: "env \<Rightarrow> real \<Rightarrow> real \<Rightarrow> JetLagStage \<Rightarrow> JetLagStage" where
  "touchUp E screenX screenY s =
     (case overlay s of
        Some ov \<Rightarrow> invoke E (Gesture (Overlay ov) TouchUp screenX screenY) s
      | None \<Rightarrow> invoke E (Gesture (Hud (hud s)) TouchUp screenX screenY) s)"

definition swipe ::
  "env \<Rightarrow> real \<Rightarrow> real \<Rightarrow> real \<Rightarrow> real \<Rightarrow> real \<Rightarrow> JetLagStage \<Rightarrow> JetLagStage" where
  "swipe E screenX0 screenY0 screenX1 screenY1 time s =
     invoke E (Swipe (Hud (hud s)) screenX0 screenY0 screenX1 screenY1 time) s"

subsection \<open>Music\<close>

text \<open>
  \<open>pauseMusic\<close> and \<open>stopMusic\<close> call \<open>stop()\<close> on the music handle without testing it:
  with \<open>musicPlaying\<close> set and no handle the call raises, after the flag was cleared.
  The error carries the stage as the exception leaves it.
\<close>

definition playMusic :: "env \<Rightarrow> JetLagStage \<Rightarrow> JetLagStage" where
  "playMusic E s =
     (if \<not> musicPlaying s
      then (case music s of
              Some m \<Rightarrow> invoke E (MusicPlay m) (s\<lparr>musicPlaying := True\<rparr>)
            | None \<Rightarrow> s)
      else s)"

definition pauseMusic :: "env \<Rightarrow> JetLagStage \<Rightarrow> (error \<times> JetLagStage) + JetLagStage" where
  "pauseMusic E s =
     (if musicPlaying s
      then (let s1 = s\<lparr>musicPlaying := False\<rparr>
            in case music s1 of
                 Some m \<Rightarrow> Inr (invoke E (MusicStop m) s1)
               | None \<Rightarrow> Inl (TypeError, s1))
      else Inr s)"

definition stopMusic :: "env \<Rightarrow> JetLagStage \<Rightarrow> (error \<times> JetLagStage) + JetLagStage" where
  "stopMusic E s =
     (if musicPlaying s
      then (let s1 = (invoke E (ConsoleLog ''stopping music'') s)\<lparr>musicPlaying := False\<rparr>
            in case music s1 of
                 Some m \<Rightarrow> Inr (invoke E (MusicStop m) s1)
               | None \<Rightarrow> Inl (TypeError, s1))
      else Inr s)"

subsection \<open>Overlay scenes and the end of a level\<close>

text \<open>
  The two statements that \<open>render\<close> and \<open>endLevel\<close> repeat for each of the four scene
  builders: construct an OverlayScene, store it in \<open>overlay\<close>, and run the builder on it.
  \<open>Build b n\<close> is the call of the builder \<open>b\<close> on a new OverlayApi bound to the overlay
  \<open>n\<close>. Each caller then clears its own builder field.
\<close>

definition showOverlay :: "env \<Rightarrow> builder \<Rightarrow> JetLagStage \<Rightarrow> JetLagStage" where
  "showOverlay E b s =
     (let n = next_obj s;
          s1 = invoke E (NewOverlayScene n) (s\<lparr>next_obj := Suc n\<rparr>);
          s2 = s1\<lparr>overlay := Some n\<rparr>
      in invoke E (Build b n) s2)"

definition endLevel :: "env \<Rightarrow> bool \<Rightarrow> JetLagStage \<Rightarrow> JetLagStage" where
  "endLevel E win s0 =
     (let s = s0\<lparr>ended := ended s0 @ [win]\<rparr>
      in if win
         then (case winSceneBuilder s of
                 Some b \<Rightarrow> (showOverlay E b s)\<lparr>winSceneBuilder := None\<rparr>
               | None \<Rightarrow> invoke E AdvanceLevel s)
         else (case loseSceneBuilder s of
                 Some b \<Rightarrow> (showOverlay E b s)\<lparr>loseSceneBuilder := None\<rparr>
               | None \<Rightarrow> invoke E RepeatLevel s))"

subsection \<open>The frame\<close>

text \<open>Lines 234 to 243 of \<open>render\<close>: two independent tests, welcome first.\<close>

definition sceneBuilders :: "env \<Rightarrow> JetLagStage \<Rightarrow> JetLagStage" where
  "sceneBuilders E s =
     (let s1 = (case welcomeSceneBuilder s of
                  Some b \<Rightarrow> (showOverlay E b s)\<lparr>welcomeSceneBuilder := None\<rparr>
                | None \<Rightarrow> s)
      in case pauseSceneBuilder s1 of
           Some b \<Rightarrow> (showOverlay E b s1)\<lparr>pauseSceneBuilder := None\<rparr>
         | None \<Rightarrow> s1)"

text \<open>Lines 256 to 271 of \<open>render\<close>: the three timers of the score.\<close>

definition updateTimers :: "env \<Rightarrow> double \<Rightarrow> JetLagStage \<Rightarrow> JetLagStage" where
  "updateTimers E elapsedTime s =
     (let s1 = (if dneq (loseCountDownRemaining (score s)) (num (- 100))
                then (let s' = s\<lparr>score := (score s)\<lparr>loseCountDownRemaining :=
                                  dsub (loseCountDownRemaining (score s))
                                    (ddiv elapsedTime (num 1000))\<rparr>\<rparr>
                      in if dless (loseCountDownRemaining (score s')) (num 0)
                         then endLevel E False s' else s')
                else s);
          s2 = (if dneq (winCountRemaining (score s1)) (num (- 100))
                then (let s' = s1\<lparr>score := (score s1)\<lparr>winCountRemaining :=
                                  dsub (winCountRemaining (score s1))
                                    (ddiv elapsedTime (num 1000))\<rparr>\<rparr>
                      in if dless (winCountRemaining (score s')) (num 0)
                         then endLevel E True s' else s')
                else s1)
      in if dneq (stopWatchProgress (score s2)) (num (- 100))
         then s2\<lparr>score := (score s2)\<lparr>stopWatchProgress :=
                  dadd (stopWatchProgress (score s2)) (ddiv elapsedTime (num 1000))\<rparr>\<rparr>
         else s2)"

text \<open>
  Lines 285 and 286: \<open>for (let e of this.world.oneTimeEvents) e()\<close>. The iterator of a
  JavaScript array reads the length and the element at its index afresh in every round,
  so events appended while the loop runs are executed by the same loop, and a callback
  that always appends another one keeps the loop running forever: \<open>None\<close>.
\<close>

partial_function (option) oneTimeLoop :: "env \<Rightarrow> nat \<Rightarrow> JetLagStage \<Rightarrow> JetLagStage option" where
  "oneTimeLoop E i s =
     (if i < length (oneTimeEvents (world s))
      then oneTimeLoop E (Suc i) (invoke E (OneTimeEvent (oneTimeEvents (world s) ! i)) s)
      else Some s)"

declare oneTimeLoop.simps [code]

text \<open>
  Lines 290 and 291: the loop over the repeat queue. \<open>render\<close> does not assign the repeat
  queue, and in this model no call appends to it, so the loop runs over the list it finds.
\<close>

fun repeatLoop :: "env \<Rightarrow> event list \<Rightarrow> JetLagStage \<Rightarrow> JetLagStage" where
  "repeatLoop E [] s = s"
| "repeatLoop E (e # es) s = repeatLoop E es (invoke E (RepeatEvent e) s)"

text \<open>Lines 294 to 304: camera, then the four layers in drawing order.\<close>

definition drawWorld :: "env \<Rightarrow> double \<Rightarrow> JetLagStage \<Rightarrow> JetLagStage" where
  "drawWorld E elapsedTime s =
     (let s1 = invoke E (AdjustCamera (ident (world s))) s;
          s2 = invoke E (BackgroundRender (background s1) elapsedTime) s1;
          s3 = invoke E (Render (World (ident (world s2))) elapsedTime) s2;
          s4 = invoke E (ForegroundRender (foreground s3) elapsedTime) s3
      in invoke E (Render (Hud (hud s4)) elapsedTime) s4)"

definition render :: "env \<Rightarrow> double \<Rightarrow> JetLagStage \<Rightarrow> JetLagStage option" where
  "render E elapsedTime s0 =
     (let s = sceneBuilders E s0
      in case overlay s of
           Some ov \<Rightarrow> Some (invoke E (Render (Overlay ov) elapsedTime) s)
         | None \<Rightarrow>
             (let s1 = invoke E (SetFrameColor (backgroundColor s)) s;
                  s2 = playMusic E s1;
                  s3 = updateTimers E elapsedTime s2;
                  s4 = invoke E (HandleTilt (ident (world s3)) (fst (accelerometer E))
                                   (snd (accelerometer E))) s3;
                  s5 = invoke E (AdvanceWorld (ident (world s4)) (ddiv (num 1) (num 45)) 8 3) s4
              in case oneTimeLoop E 0 s5 of
                   None \<Rightarrow> None
                 | Some s6 \<Rightarrow>
                     (let s7 = s6\<lparr>world := (world s6)\<lparr>oneTimeEvents := []\<rparr>\<rparr>;
                          s8 = repeatLoop E (repeatEvents (world s7)) s7
                      in Some (drawWorld E elapsedTime s8))))"

subsection \<open>Resetting the stage\<close>

text \<open>The background colour \<open>0xFFFFFF\<close> is \<open>16777215\<close>.\<close>

definition onScreenChange :: "env \<Rightarrow> JetLagStage \<Rightarrow> (error \<times> JetLagStage) + JetLagStage" where
  "onScreenChange E s0 =
     (case stopMusic E s0 of
        Inl err \<Rightarrow> Inl err
      | Inr s1 \<Rightarrow>
          (let s2 = s1\<lparr>music := None, projectilePool := None\<rparr>;
               s3 = (invoke E ScoreReset s2)\<lparr>score := reset (score s2)\<rparr>;
               s4 = invoke E ClearLevelFacts s3;
               s5 = s4\<lparr>gestureHudFirst := True, backgroundColor := 16777215,
                       welcomeSceneBuilder := None, winSceneBuilder := None,
                       loseSceneBuilder := None, pauseSceneBuilder := None\<rparr>;
               n = next_obj s5;
               s6 = (invoke E (NewWorldScene n) s5)\<lparr>world := new_WorldScene n\<rparr>;
               s7 = (invoke E (NewOverlayScene (n + 1)) s6)\<lparr>hud := n + 1\<rparr>;
               s8 = (invoke E (NewParallaxScene (n + 2)) s7)\<lparr>background := n + 2\<rparr>;
               s9 = (invoke E (NewParallaxScene (n + 3)) s8)\<lparr>foreground := n + 3\<rparr>
           in Inr (s9\<lparr>next_obj := n + 4\<rparr>)))"

section \<open>Auxiliary definitions for the statements\<close>

text \<open>An environment in which no call enqueues anything and no tap is consumed.\<close>

definition quiet :: env where
  "quiet = \<lparr>pushed = (\<lambda>c. []), consumed = (\<lambda>c. False), accelerometer = (0, 0)\<rparr>"

text \<open>A stage right after \<open>onScreenChange\<close>: nothing pending, all timers inactive.\<close>

definition stage0 :: JetLagStage where
  "stage0 = \<lparr>world = \<lparr>ident = 0, oneTimeEvents = [], repeatEvents = []\<rparr>, hud = 1,
     overlay = None, gestureHudFirst = True, backgroundColor = 16777215,
     welcomeSceneBuilder = None, winSceneBuilder = None, loseSceneBuilder = None,
     pauseSceneBuilder = None,
     score = \<lparr>loseCountDownRemaining = num (- 100), winCountRemaining = num (- 100),
              stopWatchProgress = num (- 100)\<rparr>,
     background = 2, foreground = 3, music = None, musicPlaying = False,
     projectilePool = None, debugMode = False, next_obj = 4, calls = [], ended = []\<rparr>"

text \<open>The two log lines \<open>tap\<close> writes in debug mode, before it routes the tap.\<close>

definition debugCalls :: "JetLagStage \<Rightarrow> real \<Rightarrow> real \<Rightarrow> call list" where
  "debugCalls s x y =
     (if debugMode s
      then [LoggerInfo (World (ident (world s))) x y, LoggerInfo (Hud (hud s)) x y] else [])"

text \<open>The call \<open>playMusic\<close> makes: it starts the music when a handle is set and it is not playing.\<close>

definition musicCalls :: "JetLagStage \<Rightarrow> call list" where
  "musicCalls s =
     (if musicPlaying s then [] else case music s of Some m \<Rightarrow> [MusicPlay m] | None \<Rightarrow> [])"

text \<open>The five calls at the end of a frame on the world-update path, in the order made.\<close>

definition drawCalls :: "JetLagStage \<Rightarrow> double \<Rightarrow> call list" where
  "drawCalls s elapsedTime =
     [AdjustCamera (ident (world s)), BackgroundRender (background s) elapsedTime,
      Render (World (ident (world s))) elapsedTime, ForegroundRender (foreground s) elapsedTime,
      Render (Hud (hud s)) elapsedTime]"

text \<open>The calls \<open>endLevel\<close> can make: building an overlay, or handing over to the manager.\<close>

fun levelEnd :: "call \<Rightarrow> bool" where
  "levelEnd (NewOverlayScene n) = True"
| "levelEnd (Build b n) = True"
| "levelEnd AdvanceLevel = True"
| "levelEnd RepeatLevel = True"
| "levelEnd c = False"


text \<open>The calls that build an overlay scene.\<close>

fun sceneBuild :: "call \<Rightarrow> bool" where
  "sceneBuild (NewOverlayScene n) = True"
| "sceneBuild (Build b n) = True"
| "sceneBuild c = False"

text \<open>
  The values \<open>onScreenChange\<close> gives to the fields it resets; \<open>n\<close> is the number of the
  first of the four scenes it constructs. The new world has no repeat event, and no
  one-time event but those the three constructors called after its own enqueue.
\<close>

definition perLevelDefaults :: "env \<Rightarrow> obj \<Rightarrow> JetLagStage \<Rightarrow> bool" where
  "perLevelDefaults E n s \<longleftrightarrow>
     music s = None \<and> \<not> musicPlaying s \<and> projectilePool s = None
     \<and> gestureHudFirst s \<and> backgroundColor s = 16777215
     \<and> welcomeSceneBuilder s = None \<and> winSceneBuilder s = None
     \<and> loseSceneBuilder s = None \<and> pauseSceneBuilder s = None
     \<and> score s = \<lparr>loseCountDownRemaining = num (- 100), winCountRemaining = num (- 100),
                   stopWatchProgress = num (- 100)\<rparr>
     \<and> world s = \<lparr>ident = n,
                   oneTimeEvents = pushed E (NewOverlayScene (n + 1))
                     @ pushed E (NewParallaxScene (n + 2)) @ pushed E (NewParallaxScene (n + 3)),
                   repeatEvents = []\<rparr>
     \<and> hud s = n + 1
     \<and> background s = n + 2 \<and> foreground s = n + 3 \<and> next_obj s = n + 4"

text \<open>The calls of \<open>onScreenChange\<close> after the music was stopped.\<close>

definition resetCalls :: "obj \<Rightarrow> call list" where
  "resetCalls n = [ScoreReset, ClearLevelFacts, NewWorldScene n, NewOverlayScene (n + 1),
                   NewParallaxScene (n + 2), NewParallaxScene (n + 3)]"

text \<open>The calls of \<open>stopMusic\<close>.\<close>

definition stopCalls :: "JetLagStage \<Rightarrow> call list" where
  "stopCalls s =
     (if musicPlaying s
      then ConsoleLog ''stopping music'' # (case music s of Some m \<Rightarrow> [MusicStop m] | None \<Rightarrow> [])
      else [])"

subsection \<open>Concrete stages and environments\<close>

text \<open>
  Half a second left on the lose countdown, and the stage one frame of 600 ms later: the
  countdown is at \<open>-0.09999999999999998\<close>, which is \<open>- 7205759403792792 * 2 ^ (- 56)\<close>,
  and, with no lose scene set, the level is repeated.
\<close>

definition half_second :: JetLagStage where
  "half_second =
     stage0\<lparr>score := (score stage0)\<lparr>loseCountDownRemaining := ddiv (num 1) (num 2)\<rparr>\<rparr>"


text \<open>
  The same countdown with a lose-scene builder set, and the stage one frame of 600 ms
  later.
\<close>

definition lose_scene_pending :: JetLagStage where
  "lose_scene_pending = half_second\<lparr>loseSceneBuilder := Some 7\<rparr>"

definition lose_scene_shown :: JetLagStage where
  "lose_scene_shown = stage0
     \<lparr>score := (score stage0)\<lparr>loseCountDownRemaining :=
                 Finite (- 7205759403792792) (- 56)\<rparr>,
      overlay := Some 4, next_obj := 5,
      calls := [SetFrameColor 16777215, NewOverlayScene 4, Build 7 4, HandleTilt 0 0 0,
                AdvanceWorld 0 (ddiv (num 1) (num 45)) 8 3, AdjustCamera 0, BackgroundRender 2 (num 600),
                Render (World 0) (num 600), ForegroundRender 3 (num 600), Render (Hud 1) (num 600)],
      ended := [False]\<rparr>"



text \<open>A welcome and a pause builder pending together, and the stage one frame later.\<close>

definition both_pending :: JetLagStage where
  "both_pending = stage0\<lparr>welcomeSceneBuilder := Some 5, pauseSceneBuilder := Some 6\<rparr>"

definition both_consumed :: JetLagStage where
  "both_consumed = stage0
     \<lparr>overlay := Some 5, next_obj := 6,
      calls := [NewOverlayScene 4, Build 5 4, NewOverlayScene 5, Build 6 5,
                Render (Overlay 5) (num 22)]\<rparr>"

text \<open>
  An environment in which the physics step enqueues the one-time event 9 (a contact
  handler deferring work) and the repeat event 3 enqueues the one-time event 8.
\<close>

definition contact :: env where
  "contact = quiet\<lparr>pushed := (\<lambda>c. case c of AdvanceWorld w dt vIter pIter \<Rightarrow> [9]
                                      | RepeatEvent e \<Rightarrow> (if e = 3 then [8] else [])
                                      | _ \<Rightarrow> [])\<rparr>"

definition queued :: JetLagStage where
  "queued = stage0\<lparr>world := \<lparr>ident = 0, oneTimeEvents = [1, 2], repeatEvents = [3, 4]\<rparr>\<rparr>"

definition queued_after :: JetLagStage where
  "queued_after = stage0
     \<lparr>world := \<lparr>ident = 0, oneTimeEvents = [8], repeatEvents = [3, 4]\<rparr>,
      calls := [SetFrameColor 16777215, HandleTilt 0 0 0, AdvanceWorld 0 (ddiv (num 1) (num 45)) 8 3,
                OneTimeEvent 1, OneTimeEvent 2, OneTimeEvent 9, RepeatEvent 3, RepeatEvent 4,
                AdjustCamera 0, BackgroundRender 2 (num 22), Render (World 0) (num 22),
                ForegroundRender 3 (num 22), Render (Hud 1) (num 22)]\<rparr>"

definition frame_N :: JetLagStage where
  "frame_N = stage0
     \<lparr>calls := [SetFrameColor 16777215, HandleTilt 0 0 0, AdvanceWorld 0 (ddiv (num 1) (num 45)) 8 3,
                OneTimeEvent 9,
                AdjustCamera 0, BackgroundRender 2 (num 22), Render (World 0) (num 22),
                ForegroundRender 3 (num 22), Render (Hud 1) (num 22)]\<rparr>"

definition frame_N1 :: JetLagStage where
  "frame_N1 = stage0
     \<lparr>calls := calls frame_N @
               [SetFrameColor 16777215, HandleTilt 0 0 0, AdvanceWorld 0 (ddiv (num 1) (num 45)) 8 3,
                AdjustCamera 0, BackgroundRender 2 (num 22), Render (World 0) (num 22),
                ForegroundRender 3 (num 22), Render (Hud 1) (num 22)]\<rparr>"

text \<open>
  The stage that shows the lose scene, after \<open>onScreenChange\<close>, and after a second
  \<open>onScreenChange\<close>.
\<close>

definition after_screen_change :: JetLagStage where
  "after_screen_change = stage0
     \<lparr>world := new_WorldScene 5, hud := 6, background := 7, foreground := 8, next_obj := 9,
      overlay := Some 4,
      calls := calls lose_scene_shown @ resetCalls 5,
      ended := [False]\<rparr>"

definition after_second_change :: JetLagStage where
  "after_second_change = stage0
     \<lparr>world := new_WorldScene 9, hud := 10, background := 11, foreground := 12,
      next_obj := 13, overlay := Some 4,
      calls := calls lose_scene_shown @ resetCalls 5 @ resetCalls 9,
      ended := [False]\<rparr>"

section \<open>Properties\<close>

subsection \<open>Numbers\<close>

text \<open>
  Some values of the arithmetic: the integer literals are exact; \<open>1 / 10\<close> is the double
  \<open>0x1999999999999A * 2 ^ (- 56)\<close>; \<open>0.1 + 0.2\<close> is \<open>0.30000000000000004\<close> and differs from
  \<open>3 / 10\<close>; \<open>2 ^ 53\<close> absorbs a thousandth; \<open>600 / 1000\<close> is the double \<open>0.6\<close>, and
  \<open>0.5 - 0.6\<close> is \<open>-0.09999999999999998\<close>.
\<close>

lemma double_values:
  "valof (num 1000) = Some 1000"
  "valof (num (- 100)) = Some (- 100)"
  "ddiv (num 1) (num 10) = Finite 7205759403792794 (- 56)"
  "dadd (ddiv (num 1) (num 10)) (ddiv (num 2) (num 10)) = Finite 5404319552844596 (- 54)"
  "dneq (dadd (ddiv (num 1) (num 10)) (ddiv (num 2) (num 10))) (ddiv (num 3) (num 10))"
  "dsub (num 9007199254740992) (ddiv (num 1) (num 1000)) = num 9007199254740992"
  "ddiv (num 600) (num 1000) = ddiv (num 6) (num 10)"
  "dsub (ddiv (num 1) (num 2)) (ddiv (num 6) (num 10)) = Finite (- 7205759403792792) (- 56)"
  "ddiv (num 1) (num 0) = Infinity False"
  "dless (ddiv (num 0) (num 0)) (num 0) = False"
  "dneq (ddiv (num 0) (num 0)) (num (- 100))"
  by code_simp+

subsection \<open>Field access through calls\<close>

lemma invoke_sel [simp]:
  "calls (invoke E c s) = calls s @ [c]"
  "world (invoke E c s) = (world s)\<lparr>oneTimeEvents := oneTimeEvents (world s) @ pushed E c\<rparr>"
  "hud (invoke E c s) = hud s"
  "overlay (invoke E c s) = overlay s"
  "gestureHudFirst (invoke E c s) = gestureHudFirst s"
  "backgroundColor (invoke E c s) = backgroundColor s"
  "welcomeSceneBuilder (invoke E c s) = welcomeSceneBuilder s"
  "winSceneBuilder (invoke E c s) = winSceneBuilder s"
  "loseSceneBuilder (invoke E c s) = loseSceneBuilder s"
  "pauseSceneBuilder (invoke E c s) = pauseSceneBuilder s"
  "score (invoke E c s) = score s"
  "background (invoke E c s) = background s"
  "foreground (invoke E c s) = foreground s"
  "music (invoke E c s) = music s"
  "musicPlaying (invoke E c s) = musicPlaying s"
  "projectilePool (invoke E c s) = projectilePool s"
  "debugMode (invoke E c s) = debugMode s"
  "next_obj (invoke E c s) = next_obj s"
  "ended (invoke E c s) = ended s"
  by (simp_all add: invoke_def push_def record_call_def)

lemma showOverlay_sel [simp]:
  "calls (showOverlay E b s) = calls s @ [NewOverlayScene (next_obj s), Build b (next_obj s)]"
  "world (showOverlay E b s) = (world s)\<lparr>oneTimeEvents := oneTimeEvents (world s)
       @ pushed E (NewOverlayScene (next_obj s)) @ pushed E (Build b (next_obj s))\<rparr>"
  "hud (showOverlay E b s) = hud s"
  "overlay (showOverlay E b s) = Some (next_obj s)"
  "gestureHudFirst (showOverlay E b s) = gestureHudFirst s"
  "backgroundColor (showOverlay E b s) = backgroundColor s"
  "welcomeSceneBuilder (showOverlay E b s) = welcomeSceneBuilder s"
  "winSceneBuilder (showOverlay E b s) = winSceneBuilder s"
  "loseSceneBuilder (showOverlay E b s) = loseSceneBuilder s"
  "pauseSceneBuilder (showOverlay E b s) = pauseSceneBuilder s"
  "score (showOverlay E b s) = score s"
  "background (showOverlay E b s) = background s"
  "foreground (showOverlay E b s) = foreground s"
  "music (showOverlay E b s) = music s"
  "musicPlaying (showOverlay E b s) = musicPlaying s"
  "projectilePool (showOverlay E b s) = projectilePool s"
  "debugMode (showOverlay E b s) = debugMode s"
  "next_obj (showOverlay E b s) = Suc (next_obj s)"
  "ended (showOverlay E b s) = ended s"
  by (simp_all add: showOverlay_def Let_def)

lemma playMusic_sel [simp]:
  "calls (playMusic E s) = calls s @ musicCalls s"
  "world (playMusic E s) = (world s)\<lparr>oneTimeEvents := oneTimeEvents (world s)
       @ concat (map (pushed E) (musicCalls s))\<rparr>"
  "hud (playMusic E s) = hud s"
  "overlay (playMusic E s) = overlay s"
  "gestureHudFirst (playMusic E s) = gestureHudFirst s"
  "backgroundColor (playMusic E s) = backgroundColor s"
  "welcomeSceneBuilder (playMusic E s) = welcomeSceneBuilder s"
  "winSceneBuilder (playMusic E s) = winSceneBuilder s"
  "loseSceneBuilder (playMusic E s) = loseSceneBuilder s"
  "pauseSceneBuilder (playMusic E s) = pauseSceneBuilder s"
  "score (playMusic E s) = score s"
  "background (playMusic E s) = background s"
  "foreground (playMusic E s) = foreground s"
  "music (playMusic E s) = music s"
  "projectilePool (playMusic E s) = projectilePool s"
  "debugMode (playMusic E s) = debugMode s"
  "next_obj (playMusic E s) = next_obj s"
  "ended (playMusic E s) = ended s"
  by (simp_all add: playMusic_def musicCalls_def split: option.splits)

subsection \<open>Goodie\<close>

text \<open>
  Claim C10. A freshly constructed Goodie has the score deltas \<open>[1, 0, 0, 0]\<close> and no
  \<open>onHeroCollect\<close> callback; \<open>setScore(v1, v2, v3, v4)\<close> replaces the deltas with exactly
  \<open>[v1, v2, v3, v4]\<close> for any numbers, without validation, and changes no other field.
\<close>

theorem Goodie_defaults_and_setScore:
  "goodie_score (new_Goodie w h img) = [1, 0, 0, 0]
   \<and> onHeroCollect (new_Goodie w h img) = None
   \<and> goodie_score (setScore v1 v2 v3 v4 g) = [v1, v2, v3, v4]
   \<and> onHeroCollect (setScore v1 v2 v3 v4 g) = onHeroCollect g
   \<and> imgName (setScore v1 v2 v3 v4 g) = imgName g
   \<and> width (setScore v1 v2 v3 v4 g) = width g
   \<and> height (setScore v1 v2 v3 v4 g) = height g"
  by (simp add: new_Goodie_def setScore_def)

subsection \<open>Gesture routing\<close>

text \<open>
  Claim C4. In every stage state with a transient overlay, each of \<open>tap\<close>, \<open>panStart\<close>,
  \<open>panMove\<close>, \<open>panStop\<close>, \<open>touchDown\<close> and \<open>touchUp\<close> makes exactly one call, on the
  overlay, and none on the world or the HUD; \<open>swipe\<close> makes exactly one call, on the HUD,
  in every state, with or without an overlay.
\<close>

theorem overlay_takes_gestures:
  "(overlay s = Some ov \<longrightarrow>
      calls (tap E x y s) = calls s @ [Gesture (Overlay ov) Tap x y]
    \<and> calls (panStart E x y s) = calls s @ [Gesture (Overlay ov) PanStart x y]
    \<and> calls (panMove E x y s) = calls s @ [Gesture (Overlay ov) PanMove x y]
    \<and> calls (panStop E x y s) = calls s @ [Gesture (Overlay ov) PanStop x y]
    \<and> calls (touchDown E x y s) = calls s @ [Gesture (Overlay ov) TouchDown x y]
    \<and> calls (touchUp E x y s) = calls s @ [Gesture (Overlay ov) TouchUp x y])
   \<and> calls (swipe E x0 y0 x1 y1 t s) = calls s @ [Swipe (Hud (hud s)) x0 y0 x1 y1 t]"
  by (simp add: tap_def panStart_def panMove_def panStop_def touchDown_def touchUp_def
      swipe_def)

theorem overlay_takes_gestures_witness:
  "overlay (stage0\<lparr>overlay := Some 9\<rparr>) = Some 9
   \<and> calls (tap quiet 3 4 (stage0\<lparr>overlay := Some 9\<rparr>)) = [Gesture (Overlay 9) Tap 3 4]
   \<and> calls (panStart quiet 3 4 (stage0\<lparr>overlay := Some 9\<rparr>))
       = [Gesture (Overlay 9) PanStart 3 4]
   \<and> calls (panMove quiet 3 4 (stage0\<lparr>overlay := Some 9\<rparr>))
       = [Gesture (Overlay 9) PanMove 3 4]
   \<and> calls (panStop quiet 3 4 (stage0\<lparr>overlay := Some 9\<rparr>))
       = [Gesture (Overlay 9) PanStop 3 4]
   \<and> calls (touchDown quiet 3 4 (stage0\<lparr>overlay := Some 9\<rparr>))
       = [Gesture (Overlay 9) TouchDown 3 4]
   \<and> calls (touchUp quiet 3 4 (stage0\<lparr>overlay := Some 9\<rparr>))
       = [Gesture (Overlay 9) TouchUp 3 4]
   \<and> calls (swipe quiet 1 2 3 4 5 (stage0\<lparr>overlay := Some 9\<rparr>)) = [Swipe (Hud 1) 1 2 3 4 5]
   \<and> calls (swipe quiet 1 2 3 4 5 stage0) = [Swipe (Hud 1) 1 2 3 4 5]"
  using overlay_takes_gestures [of "stage0\<lparr>overlay := Some 9\<rparr>" 9 quiet 3 4 1 2 3 4 5]
    overlay_takes_gestures [of stage0 9 quiet 3 4 1 2 3 4 5]
  by (simp add: stage0_def)

text \<open>
  Claim C5. For every tap with no overlay: with \<open>gestureHudFirst\<close> set, the HUD's handler
  is called first, and the world's handler is called, once, exactly when the HUD's handler
  returned false; with \<open>gestureHudFirst\<close> cleared, HUD and world change places.
\<close>

theorem tap_priority:
  "overlay s = None \<Longrightarrow>
   calls (tap E x y s) = calls s @ debugCalls s x y @
     (if gestureHudFirst s
      then Gesture (Hud (hud s)) Tap x y #
           (if consumed E (Gesture (Hud (hud s)) Tap x y) then []
            else [Gesture (World (ident (world s))) Tap x y])
      else Gesture (World (ident (world s))) Tap x y #
           (if consumed E (Gesture (World (ident (world s))) Tap x y) then []
            else [Gesture (Hud (hud s)) Tap x y]))"
  by (simp add: tap_def Let_def debugCalls_def)

theorem tap_priority_witness:
  "overlay stage0 = None
   \<and> calls (tap quiet 3 4 stage0) = [Gesture (Hud 1) Tap 3 4, Gesture (World 0) Tap 3 4]
   \<and> calls (tap (quiet\<lparr>consumed := (\<lambda>c. True)\<rparr>) 3 4 stage0) = [Gesture (Hud 1) Tap 3 4]
   \<and> calls (tap (quiet\<lparr>consumed := (\<lambda>c. True)\<rparr>) 3 4 (stage0\<lparr>gestureHudFirst := False\<rparr>))
       = [Gesture (World 0) Tap 3 4]"
  using tap_priority [of stage0 quiet 3 4]
    tap_priority [of stage0 "quiet\<lparr>consumed := (\<lambda>c. True)\<rparr>" 3 4]
    tap_priority [of "stage0\<lparr>gestureHudFirst := False\<rparr>" "quiet\<lparr>consumed := (\<lambda>c. True)\<rparr>" 3 4]
  by (simp add: stage0_def quiet_def debugCalls_def)

subsection \<open>The end of a level\<close>

text \<open>
  Claim C7. \<open>endLevel(true)\<close> with a win-scene builder pending constructs exactly one new
  overlay, runs the builder on it and clears the builder, so that a second \<open>endLevel(true)\<close>
  builds nothing and calls the manager's \<open>advanceLevel\<close>; with no win builder pending it
  creates no overlay and calls \<open>advanceLevel\<close>. \<open>endLevel(false)\<close> does the same with the
  lose-scene builder and \<open>repeatLevel\<close>.
\<close>

theorem endLevel_one_shot:
  "(winSceneBuilder s = Some b \<longrightarrow>
      calls (endLevel E True s) = calls s @ [NewOverlayScene (next_obj s), Build b (next_obj s)]
      \<and> overlay (endLevel E True s) = Some (next_obj s)
      \<and> winSceneBuilder (endLevel E True s) = None
      \<and> calls (endLevel E' True (endLevel E True s))
          = calls (endLevel E True s) @ [AdvanceLevel]
      \<and> overlay (endLevel E' True (endLevel E True s)) = Some (next_obj s))
   \<and> (winSceneBuilder s = None \<longrightarrow>
      calls (endLevel E True s) = calls s @ [AdvanceLevel]
      \<and> overlay (endLevel E True s) = overlay s)
   \<and> (loseSceneBuilder s = Some b \<longrightarrow>
      calls (endLevel E False s) = calls s @ [NewOverlayScene (next_obj s), Build b (next_obj s)]
      \<and> overlay (endLevel E False s) = Some (next_obj s)
      \<and> loseSceneBuilder (endLevel E False s) = None
      \<and> calls (endLevel E' False (endLevel E False s))
          = calls (endLevel E False s) @ [RepeatLevel]
      \<and> overlay (endLevel E' False (endLevel E False s)) = Some (next_obj s))
   \<and> (loseSceneBuilder s = None \<longrightarrow>
      calls (endLevel E False s) = calls s @ [RepeatLevel]
      \<and> overlay (endLevel E False s) = overlay s)"
  by (simp add: endLevel_def Let_def)

theorem endLevel_one_shot_witness:
  "winSceneBuilder (stage0\<lparr>winSceneBuilder := Some 7\<rparr>) = Some 7
   \<and> calls (endLevel quiet True (stage0\<lparr>winSceneBuilder := Some 7\<rparr>))
       = [NewOverlayScene 4, Build 7 4]
   \<and> calls (endLevel quiet True (endLevel quiet True (stage0\<lparr>winSceneBuilder := Some 7\<rparr>)))
       = [NewOverlayScene 4, Build 7 4, AdvanceLevel]
   \<and> winSceneBuilder stage0 = None
   \<and> calls (endLevel quiet True stage0) = [AdvanceLevel]
   \<and> loseSceneBuilder (stage0\<lparr>loseSceneBuilder := Some 8\<rparr>) = Some 8
   \<and> calls (endLevel quiet False (stage0\<lparr>loseSceneBuilder := Some 8\<rparr>))
       = [NewOverlayScene 4, Build 8 4]
   \<and> loseSceneBuilder stage0 = None
   \<and> calls (endLevel quiet False stage0) = [RepeatLevel]"
  using endLevel_one_shot [of "stage0\<lparr>winSceneBuilder := Some 7\<rparr>" 7 quiet quiet]
    endLevel_one_shot [of stage0 7 quiet quiet]
    endLevel_one_shot [of "stage0\<lparr>loseSceneBuilder := Some 8\<rparr>" 8 quiet quiet]
  by (simp add: stage0_def)

subsection \<open>The loop over the one-time events\<close>

text \<open>
  When the loop returns, it has executed the queue as it stands at the end, from the
  index it started at, in order; that queue is the one it started with, followed by what
  the executed events themselves appended.
\<close>

lemma oneTimeLoop_Some:
  assumes "oneTimeLoop E i s = Some s'"
  shows "s' = s\<lparr>calls := calls s @ map OneTimeEvent (drop i (oneTimeEvents (world s'))),
                  world := (world s)\<lparr>oneTimeEvents := oneTimeEvents (world s')\<rparr>\<rparr>
         \<and> oneTimeEvents (world s') = oneTimeEvents (world s)
             @ concat (map (\<lambda>e. pushed E (OneTimeEvent e)) (drop i (oneTimeEvents (world s'))))"
  using assms
proof (induction rule: oneTimeLoop.raw_induct [rotated 1, consumes 1, case_names step])
  case (step loop E i s s')
  show ?case
  proof (cases "i < length (oneTimeEvents (world s))")
    case False
    with step(2) have "s' = s" by simp
    with False show ?thesis by simp
  next
    case True
    let ?e = "oneTimeEvents (world s) ! i"
    let ?s1 = "invoke E (OneTimeEvent ?e) s"
    let ?Q = "oneTimeEvents (world s')"
    from True step(2) have rec: "loop E (Suc i) ?s1 = Some s'" by simp
    from step(1) [OF rec] have
      eq: "s' = ?s1\<lparr>calls := calls ?s1 @ map OneTimeEvent (drop (Suc i) ?Q),
                  world := (world ?s1)\<lparr>oneTimeEvents := ?Q\<rparr>\<rparr>"
      and q: "?Q = oneTimeEvents (world ?s1)
                @ concat (map (\<lambda>e. pushed E (OneTimeEvent e)) (drop (Suc i) ?Q))"
      by blast+
    from q have q': "?Q = oneTimeEvents (world s) @ (pushed E (OneTimeEvent ?e)
                @ concat (map (\<lambda>e. pushed E (OneTimeEvent e)) (drop (Suc i) ?Q)))"
      by simp
    from True have nth: "?Q ! i = ?e"
      by (subst q') (simp add: nth_append)
    from True have "i < length ?Q" by (subst q') simp
    then have d: "drop i ?Q = ?e # drop (Suc i) ?Q"
      using nth by (simp add: Cons_nth_drop_Suc [symmetric])
    have "s' = s\<lparr>calls := calls s @ map OneTimeEvent (drop i ?Q),
                  world := (world s)\<lparr>oneTimeEvents := ?Q\<rparr>\<rparr>"
      by (subst eq, subst d) (simp add: invoke_def push_def record_call_def)
    moreover have "?Q = oneTimeEvents (world s)
             @ concat (map (\<lambda>e. pushed E (OneTimeEvent e)) (drop i ?Q))"
      by (subst d, subst q') simp
    ultimately show ?thesis by blast
  qed
qed

text \<open>
  The loop returns when no one-time event appends another one, and then it executes the
  events that were pending, each once.
\<close>

lemma oneTimeLoop_returns:
  assumes "\<forall>e. pushed E (OneTimeEvent e) = []"
  shows "oneTimeLoop E i s
         = Some (s\<lparr>calls := calls s @ map OneTimeEvent (drop i (oneTimeEvents (world s)))\<rparr>)"
proof (induction "length (oneTimeEvents (world s)) - i" arbitrary: i s)
  case 0
  then show ?case by (subst oneTimeLoop.simps) simp
next
  case (Suc n)
  let ?q = "oneTimeEvents (world s)"
  let ?s1 = "invoke E (OneTimeEvent (?q ! i)) s"
  from Suc(2) have lt: "i < length ?q" by simp
  from assms have q1: "oneTimeEvents (world ?s1) = ?q" by simp
  with Suc(2) have "n = length (oneTimeEvents (world ?s1)) - Suc i" by simp
  from Suc(1) [OF this] q1
  have "oneTimeLoop E (Suc i) ?s1
        = Some (?s1\<lparr>calls := calls ?s1 @ map OneTimeEvent (drop (Suc i) ?q)\<rparr>)"
    by simp
  moreover from lt have "drop i ?q = ?q ! i # drop (Suc i) ?q"
    by (simp add: Cons_nth_drop_Suc)
  ultimately show ?case
    using lt assms by (subst oneTimeLoop.simps) (simp add: invoke_def push_def record_call_def)
qed

text \<open>
  It does not return when every one-time event appends another one and an event is
  pending: the index never reaches the end of the queue.
\<close>

lemma oneTimeLoop_growing:
  assumes "oneTimeLoop E i s = Some s'" and "\<forall>e. pushed E (OneTimeEvent e) \<noteq> []"
  shows "length (oneTimeEvents (world s)) \<le> i"
  using assms
proof (induction rule: oneTimeLoop.raw_induct [rotated 1, consumes 1, case_names step])
  case (step loop E i s s')
  show ?case
  proof (rule ccontr)
    assume "\<not> length (oneTimeEvents (world s)) \<le> i"
    then have lt: "i < length (oneTimeEvents (world s))" by simp
    let ?c = "OneTimeEvent (oneTimeEvents (world s) ! i)"
    from lt step(2) have "loop E (Suc i) (invoke E ?c s) = Some s'" by simp
    from step(1) [OF this step(3)]
    have "length (oneTimeEvents (world s)) + length (pushed E ?c) \<le> Suc i" by simp
    moreover from step(3) have "0 < length (pushed E ?c)" by simp
    ultimately show False using lt by simp
  qed
qed




subsection \<open>The phases of a frame\<close>

lemma sceneBuilders_idle:
  "welcomeSceneBuilder s = None \<Longrightarrow> pauseSceneBuilder s = None \<Longrightarrow> sceneBuilders E s = s"
  by (simp add: sceneBuilders_def)

lemma sceneBuilders_calls:
  "\<exists>bs ps. calls (sceneBuilders E s) = calls s @ bs \<and> (\<forall>c\<in>set bs. sceneBuild c)
     \<and> (welcomeSceneBuilder s = None \<and> pauseSceneBuilder s = None \<longrightarrow> bs = [])
     \<and> oneTimeEvents (world (sceneBuilders E s)) = oneTimeEvents (world s) @ ps"
  by (simp add: sceneBuilders_def Let_def split: option.splits)

lemma sceneBuilders_sel [simp]:
  "hud (sceneBuilders E s) = hud s"
  "gestureHudFirst (sceneBuilders E s) = gestureHudFirst s"
  "backgroundColor (sceneBuilders E s) = backgroundColor s"
  "welcomeSceneBuilder (sceneBuilders E s) = None"
  "winSceneBuilder (sceneBuilders E s) = winSceneBuilder s"
  "loseSceneBuilder (sceneBuilders E s) = loseSceneBuilder s"
  "pauseSceneBuilder (sceneBuilders E s) = None"
  "score (sceneBuilders E s) = score s"
  "background (sceneBuilders E s) = background s"
  "foreground (sceneBuilders E s) = foreground s"
  "music (sceneBuilders E s) = music s"
  "musicPlaying (sceneBuilders E s) = musicPlaying s"
  "projectilePool (sceneBuilders E s) = projectilePool s"
  "debugMode (sceneBuilders E s) = debugMode s"
  "ended (sceneBuilders E s) = ended s"
  "ident (world (sceneBuilders E s)) = ident (world s)"
  "repeatEvents (world (sceneBuilders E s)) = repeatEvents (world s)"
  by (simp_all add: sceneBuilders_def Let_def split: option.splits)

lemma sceneBuilders_overlay:
  "overlay s \<noteq> None \<or> welcomeSceneBuilder s \<noteq> None \<or> pauseSceneBuilder s \<noteq> None
   \<Longrightarrow> overlay (sceneBuilders E s) \<noteq> None"
  by (auto simp add: sceneBuilders_def Let_def split: option.splits)

lemma updateTimers_sel [simp]:
  "loseCountDownRemaining (score (updateTimers E el s))
     = (if dneq (loseCountDownRemaining (score s)) (num (- 100))
        then dsub (loseCountDownRemaining (score s)) (ddiv el (num 1000))
        else loseCountDownRemaining (score s))"
  "winCountRemaining (score (updateTimers E el s))
     = (if dneq (winCountRemaining (score s)) (num (- 100))
        then dsub (winCountRemaining (score s)) (ddiv el (num 1000))
        else winCountRemaining (score s))"
  "stopWatchProgress (score (updateTimers E el s))
     = (if dneq (stopWatchProgress (score s)) (num (- 100))
        then dadd (stopWatchProgress (score s)) (ddiv el (num 1000))
        else stopWatchProgress (score s))"
  "hud (updateTimers E el s) = hud s"
  "gestureHudFirst (updateTimers E el s) = gestureHudFirst s"
  "backgroundColor (updateTimers E el s) = backgroundColor s"
  "welcomeSceneBuilder (updateTimers E el s) = welcomeSceneBuilder s"
  "pauseSceneBuilder (updateTimers E el s) = pauseSceneBuilder s"
  "background (updateTimers E el s) = background s"
  "foreground (updateTimers E el s) = foreground s"
  "music (updateTimers E el s) = music s"
  "musicPlaying (updateTimers E el s) = musicPlaying s"
  "projectilePool (updateTimers E el s) = projectilePool s"
  "debugMode (updateTimers E el s) = debugMode s"
  "ident (world (updateTimers E el s)) = ident (world s)"
  "repeatEvents (world (updateTimers E el s)) = repeatEvents (world s)"
  by (simp_all add: updateTimers_def endLevel_def Let_def split: option.splits)

lemma updateTimers_calls:
  "\<exists>tc. calls (updateTimers E el s) = calls s @ tc
     \<and> (\<forall>c\<in>set tc. levelEnd c)
     \<and> oneTimeEvents (world (updateTimers E el s))
         = oneTimeEvents (world s) @ concat (map (pushed E) tc)"
  by (simp add: updateTimers_def Let_def endLevel_def split: option.splits)

lemma updateTimers_ended:
  "ended (updateTimers E el s) = ended s
     @ (if dneq (loseCountDownRemaining (score s)) (num (- 100))
           \<and> dless (dsub (loseCountDownRemaining (score s)) (ddiv el (num 1000))) (num 0)
        then [False] else [])
     @ (if dneq (winCountRemaining (score s)) (num (- 100))
           \<and> dless (dsub (winCountRemaining (score s)) (ddiv el (num 1000))) (num 0)
        then [True] else [])"
  by (simp add: updateTimers_def Let_def endLevel_def split: option.splits)

lemma repeatLoop_eq:
  "repeatLoop E es s
   = s\<lparr>calls := calls s @ map RepeatEvent es,
       world := (world s)\<lparr>oneTimeEvents := oneTimeEvents (world s)
                  @ concat (map (\<lambda>e. pushed E (RepeatEvent e)) es)\<rparr>\<rparr>"
  by (induction es arbitrary: s) (simp_all add: invoke_def push_def record_call_def)

lemma drawWorld_eq:
  "drawWorld E el s
   = s\<lparr>calls := calls s @ drawCalls s el,
       world := (world s)\<lparr>oneTimeEvents := oneTimeEvents (world s)
                  @ concat (map (pushed E) (drawCalls s el))\<rparr>\<rparr>"
  by (simp add: drawWorld_def drawCalls_def Let_def invoke_def push_def record_call_def)


text \<open>
  A frame on the world-update path that returns: the calls it makes, the one-time events
  \<open>Q\<close> it executes, the queue it leaves, the score and the invocations of \<open>endLevel\<close>.
\<close>

lemma render_world_path:
  assumes idle: "overlay s = None" "welcomeSceneBuilder s = None" "pauseSceneBuilder s = None"
    and ret: "render E el s = Some s'"
  shows "\<exists>tc Q.
      calls s' = calls s @ (SetFrameColor (backgroundColor s) # musicCalls s @ tc
         @ [HandleTilt (ident (world s)) (fst (accelerometer E)) (snd (accelerometer E)),
            AdvanceWorld (ident (world s)) (ddiv (num 1) (num 45)) 8 3])
         @ map OneTimeEvent Q @ map RepeatEvent (repeatEvents (world s)) @ drawCalls s el
    \<and> (\<forall>c\<in>set tc. levelEnd c)
    \<and> Q = oneTimeEvents (world s)
           @ concat (map (pushed E) (SetFrameColor (backgroundColor s) # musicCalls s @ tc
               @ [HandleTilt (ident (world s)) (fst (accelerometer E)) (snd (accelerometer E)),
                  AdvanceWorld (ident (world s)) (ddiv (num 1) (num 45)) 8 3]))
           @ concat (map (\<lambda>e. pushed E (OneTimeEvent e)) Q)
    \<and> oneTimeEvents (world s')
         = concat (map (pushed E) (map RepeatEvent (repeatEvents (world s)) @ drawCalls s el))
    \<and> repeatEvents (world s') = repeatEvents (world s)
    \<and> score s' = score (updateTimers E el s)
    \<and> ended s' = ended (updateTimers E el s)"
proof -
  let ?s1 = "invoke E (SetFrameColor (backgroundColor s)) s"
  let ?s2 = "playMusic E ?s1"
  let ?s3 = "updateTimers E el ?s2"
  let ?tilt = "HandleTilt (ident (world s)) (fst (accelerometer E)) (snd (accelerometer E))"
  let ?adv = "AdvanceWorld (ident (world s)) (ddiv (num 1) (num 45)) 8 3"
  let ?s5 = "invoke E ?adv (invoke E ?tilt ?s3)"
  have sb: "sceneBuilders E s = s" by (rule sceneBuilders_idle [OF idle(2,3)])
  from ret idle obtain s6 where loop: "oneTimeLoop E 0 ?s5 = Some s6"
    and s': "s' = drawWorld E el (repeatLoop E (repeatEvents (world s6))
                  (s6\<lparr>world := (world s6)\<lparr>oneTimeEvents := []\<rparr>\<rparr>))"
    by (auto simp add: render_def sb Let_def split: option.splits)
  let ?Q = "oneTimeEvents (world s6)"
  from oneTimeLoop_Some [OF loop] have
    s6: "s6 = ?s5\<lparr>calls := calls ?s5 @ map OneTimeEvent ?Q,
                  world := (world ?s5)\<lparr>oneTimeEvents := ?Q\<rparr>\<rparr>"
    and q6: "?Q = oneTimeEvents (world ?s5) @ concat (map (\<lambda>e. pushed E (OneTimeEvent e)) ?Q)"
    by simp_all
  from updateTimers_calls [of E el ?s2] obtain tc where
    tc: "calls ?s3 = calls ?s2 @ tc"
    and le: "\<forall>c\<in>set tc. levelEnd c"
    and ps: "oneTimeEvents (world ?s3) = oneTimeEvents (world ?s2) @ concat (map (pushed E) tc)"
    by auto
  have sc: "score ?s3 = score (updateTimers E el s)" "ended ?s3 = ended (updateTimers E el s)"
    by (rule Score.equality, simp_all add: updateTimers_ended)
  have f6: "repeatEvents (world s6) = repeatEvents (world s)" "ident (world s6) = ident (world s)"
    "background s6 = background s" "foreground s6 = foreground s" "hud s6 = hud s"
    "score s6 = score ?s3" "ended s6 = ended ?s3" "calls s6 = calls ?s5 @ map OneTimeEvent ?Q"
    by (subst s6, simp)+
  have m1: "musicCalls ?s1 = musicCalls s" by (simp add: musicCalls_def)
  have c1: "calls s' = calls s @ (SetFrameColor (backgroundColor s) # musicCalls s @ tc
         @ [?tilt, ?adv]) @ map OneTimeEvent ?Q @ map RepeatEvent (repeatEvents (world s))
         @ drawCalls s el"
    by (simp add: s' drawWorld_eq repeatLoop_eq f6 tc drawCalls_def m1)
  have q5: "oneTimeEvents (world ?s5) = oneTimeEvents (world s)
       @ concat (map (pushed E) (SetFrameColor (backgroundColor s) # musicCalls s @ tc
           @ [?tilt, ?adv]))"
    by (simp add: ps m1)
  have c2: "?Q = oneTimeEvents (world s)
       @ concat (map (pushed E) (SetFrameColor (backgroundColor s) # musicCalls s @ tc
           @ [?tilt, ?adv]))
       @ concat (map (\<lambda>e. pushed E (OneTimeEvent e)) ?Q)"
    by (subst q6, subst q5) simp
  have c3: "oneTimeEvents (world s')
         = concat (map (pushed E) (map RepeatEvent (repeatEvents (world s)) @ drawCalls s el))"
    by (simp add: s' drawWorld_eq repeatLoop_eq f6 drawCalls_def comp_def)
  have c4: "repeatEvents (world s') = repeatEvents (world s)"
    "score s' = score (updateTimers E el s)" "ended s' = ended (updateTimers E el s)"
    by (simp_all add: s' drawWorld_eq repeatLoop_eq f6 sc)
  from c1 le c2 c3 c4 show ?thesis by blast
qed

text \<open>
  A frame returns when no one-time event appends another one.
\<close>

lemma render_returns:
  assumes "\<forall>e. pushed E (OneTimeEvent e) = []"
  shows "\<exists>s'. render E el s = Some s'"
  by (simp add: render_def Let_def oneTimeLoop_returns [OF assms] split: option.splits)


text \<open>
  A frame on the world-update path does not return when every one-time event appends
  another one and an event is pending.
\<close>

lemma render_may_not_return:
  assumes "overlay s = None" "welcomeSceneBuilder s = None" "pauseSceneBuilder s = None"
    and "\<forall>e. pushed E (OneTimeEvent e) \<noteq> []" and "oneTimeEvents (world s) \<noteq> []"
  shows "render E elapsedTime s = None"
proof (rule ccontr)
  assume "render E elapsedTime s \<noteq> None"
  with assms(1-3) obtain s5 s6 where loop: "oneTimeLoop E 0 s5 = Some s6"
    and q: "\<exists>ps. oneTimeEvents (world s5) = oneTimeEvents (world s) @ ps"
    using updateTimers_calls [of E elapsedTime
        "playMusic E (invoke E (SetFrameColor (backgroundColor s)) s)"]
    by (auto simp add: render_def sceneBuilders_idle Let_def split: option.splits)
  from oneTimeLoop_growing [OF loop assms(4)] q assms(5) show False by auto
qed

subsection \<open>Evaluation of concrete frames\<close>

text \<open>The arithmetic of the concrete frames, evaluated.\<close>

lemma sentinel_inactive: "dneq (num (- 100)) (num (- 100)) = False"
  by code_simp

lemma half_second_timer:
  "dneq (ddiv (num 1) (num 2)) (num (- 100))"
  "ddiv (num 600) (num 1000) = Finite 5404319552844595 (- 53)"
  "dsub (ddiv (num 1) (num 2)) (Finite 5404319552844595 (- 53))
     = Finite (- 7205759403792792) (- 56)"
  "dless (Finite (- 7205759403792792) (- 56)) (num 0)"
  by code_simp+



lemmas eval_render = render_def sceneBuilders_def showOverlay_def invoke_def push_def
  record_call_def playMusic_def updateTimers_def endLevel_def drawWorld_def Let_def
  oneTimeLoop.simps sentinel_inactive half_second_timer



lemma render_queued: "render contact (num 22) queued = Some queued_after"
  by (simp add: queued_def queued_after_def stage0_def contact_def quiet_def eval_render)

subsection \<open>Overlays and the frame\<close>

text \<open>
  Claim C1, as amended. Whenever a transient overlay is present when \<open>render\<close> reaches its
  overlay test, that is, an overlay was present at the start of the call or a welcome or
  pause builder was pending and built one in this call, \<open>render\<close> returns after drawing
  the overlay and nothing else: besides the calls that build the overlay, the only call is
  the overlay's \<open>render\<close>; the score timers, the record of \<open>endLevel\<close> invocations, the music
  flag and the repeat queue are unchanged, no event is executed and the one-time queue is
  not cleared, for every stage state and every elapsed time. (An overlay that \<open>endLevel\<close>
  creates inside the timer update does not stop the world update of that call; it is
  drawn alone from the next call on.)
\<close>

theorem overlay_supersedes_world:
  assumes "overlay s \<noteq> None \<or> welcomeSceneBuilder s \<noteq> None \<or> pauseSceneBuilder s \<noteq> None"
  shows "\<exists>s' ov bs ps.
      render E elapsedTime s = Some s' \<and> overlay s' = Some ov
    \<and> calls s' = calls s @ bs @ [Render (Overlay ov) elapsedTime]
    \<and> (\<forall>c\<in>set bs. sceneBuild c)
    \<and> (welcomeSceneBuilder s = None \<and> pauseSceneBuilder s = None \<longrightarrow> bs = [])
    \<and> score s' = score s \<and> ended s' = ended s \<and> musicPlaying s' = musicPlaying s
    \<and> oneTimeEvents (world s') = oneTimeEvents (world s) @ ps
    \<and> repeatEvents (world s') = repeatEvents (world s)"
proof -
  let ?s1 = "sceneBuilders E s"
  from sceneBuilders_overlay [OF assms] obtain ov where ov: "overlay ?s1 = Some ov"
    by blast
  let ?s' = "invoke E (Render (Overlay ov) elapsedTime) ?s1"
  from ov have r: "render E elapsedTime s = Some ?s'"
    by (simp add: render_def Let_def)
  from sceneBuilders_calls [of E s] obtain bs ps where
    bs: "calls ?s1 = calls s @ bs" "\<forall>c\<in>set bs. sceneBuild c"
    "welcomeSceneBuilder s = None \<and> pauseSceneBuilder s = None \<longrightarrow> bs = []"
    "oneTimeEvents (world ?s1) = oneTimeEvents (world s) @ ps"
    by blast
  have "overlay ?s' = Some ov" "calls ?s' = calls s @ bs @ [Render (Overlay ov) elapsedTime]"
    "score ?s' = score s" "ended ?s' = ended s" "musicPlaying ?s' = musicPlaying s"
    "oneTimeEvents (world ?s') = oneTimeEvents (world s)
        @ (ps @ pushed E (Render (Overlay ov) elapsedTime))"
    "repeatEvents (world ?s') = repeatEvents (world s)"
    by (simp_all add: ov bs)
  with r bs(2,3) show ?thesis by blast
qed

theorem overlay_supersedes_world_witness:
  "overlay lose_scene_shown = Some 4
   \<and> score lose_scene_shown
       = \<lparr>loseCountDownRemaining = Finite (- 7205759403792792) (- 56),
          winCountRemaining = num (- 100), stopWatchProgress = num (- 100)\<rparr>
   \<and> render quiet (num 22) lose_scene_shown
       = Some (lose_scene_shown\<lparr>calls := calls lose_scene_shown @ [Render (Overlay 4) (num 22)]\<rparr>)
   \<and> welcomeSceneBuilder (stage0\<lparr>welcomeSceneBuilder := Some 5\<rparr>) = Some 5
   \<and> render quiet (num 22) (stage0\<lparr>welcomeSceneBuilder := Some 5\<rparr>)
       = Some (stage0\<lparr>overlay := Some 4, next_obj := 5,
                 calls := [NewOverlayScene 4, Build 5 4, Render (Overlay 4) (num 22)]\<rparr>)"
  using overlay_supersedes_world [of lose_scene_shown quiet "num 22"]
    overlay_supersedes_world [of "stage0\<lparr>welcomeSceneBuilder := Some 5\<rparr>" quiet "num 22"]
  by (simp add: lose_scene_shown_def stage0_def quiet_def eval_render)

text \<open>
  Claim C1 as stated fails in the call in which \<open>endLevel\<close> creates the overlay: with half
  a second on the lose countdown, a lose-scene builder set and a frame of 600 ms, the call
  starts without overlay and ends with the overlay 4, and in between it has advanced the
  physics world, adjusted the camera and drawn background, world, foreground and HUD; the
  overlay was not drawn.
\<close>

theorem overlay_created_by_endLevel_counterexample:
  "overlay lose_scene_pending = None
   \<and> render quiet (num 600) lose_scene_pending = Some lose_scene_shown
   \<and> overlay lose_scene_shown = Some 4
   \<and> calls lose_scene_shown
       = [SetFrameColor 16777215, NewOverlayScene 4, Build 7 4, HandleTilt 0 0 0,
          AdvanceWorld 0 (ddiv (num 1) (num 45)) 8 3, AdjustCamera 0, BackgroundRender 2 (num 600),
          Render (World 0) (num 600), ForegroundRender 3 (num 600), Render (Hud 1) (num 600)]
   \<and> Render (Overlay 4) (num 600) \<notin> set (calls lose_scene_shown)"
  by (simp add: lose_scene_pending_def lose_scene_shown_def half_second_def stage0_def
      quiet_def eval_render)

text \<open>
  Claim C2, as amended. \<open>render\<close> tests the pause-scene builder in every call, whether or
  not a welcome-scene builder was pending: when both are pending at the start of a call,
  both are consumed and cleared in that call; the welcome builder runs on a first new
  overlay, the pause builder on a second one, which replaces the first and is the one
  drawn. With only one of the two pending, that one is consumed and its overlay drawn.
\<close>

theorem both_builders_consumed:
  "(welcomeSceneBuilder s = Some bw \<and> pauseSceneBuilder s = Some bp \<longrightarrow>
      (\<exists>s'. render E elapsedTime s = Some s'
         \<and> welcomeSceneBuilder s' = None \<and> pauseSceneBuilder s' = None
         \<and> overlay s' = Some (Suc (next_obj s))
         \<and> calls s' = calls s @ [NewOverlayScene (next_obj s), Build bw (next_obj s),
              NewOverlayScene (Suc (next_obj s)), Build bp (Suc (next_obj s)),
              Render (Overlay (Suc (next_obj s))) elapsedTime]))
   \<and> (welcomeSceneBuilder s = None \<and> pauseSceneBuilder s = Some bp \<longrightarrow>
      (\<exists>s'. render E elapsedTime s = Some s'
         \<and> welcomeSceneBuilder s' = None \<and> pauseSceneBuilder s' = None
         \<and> overlay s' = Some (next_obj s)
         \<and> calls s' = calls s @ [NewOverlayScene (next_obj s), Build bp (next_obj s),
              Render (Overlay (next_obj s)) elapsedTime]))
   \<and> (welcomeSceneBuilder s = Some bw \<and> pauseSceneBuilder s = None \<longrightarrow>
      (\<exists>s'. render E elapsedTime s = Some s'
         \<and> welcomeSceneBuilder s' = None \<and> pauseSceneBuilder s' = None
         \<and> overlay s' = Some (next_obj s)
         \<and> calls s' = calls s @ [NewOverlayScene (next_obj s), Build bw (next_obj s),
              Render (Overlay (next_obj s)) elapsedTime]))"
  by (simp add: render_def sceneBuilders_def Let_def)

theorem both_builders_consumed_witness:
  "welcomeSceneBuilder both_pending = Some 5 \<and> pauseSceneBuilder both_pending = Some 6
   \<and> render quiet (num 22) both_pending = Some both_consumed
   \<and> welcomeSceneBuilder both_consumed = None \<and> pauseSceneBuilder both_consumed = None
   \<and> overlay both_consumed = Some 5
   \<and> render quiet (num 22) (stage0\<lparr>pauseSceneBuilder := Some 6\<rparr>)
       = Some (stage0\<lparr>overlay := Some 4, next_obj := 5,
                 calls := [NewOverlayScene 4, Build 6 4, Render (Overlay 4) (num 22)]\<rparr>)
   \<and> render quiet (num 22) (stage0\<lparr>welcomeSceneBuilder := Some 5\<rparr>)
       = Some (stage0\<lparr>overlay := Some 4, next_obj := 5,
                 calls := [NewOverlayScene 4, Build 5 4, Render (Overlay 4) (num 22)]\<rparr>)"
  using both_builders_consumed [of both_pending 5 6 quiet "num 22"]
    both_builders_consumed [of "stage0\<lparr>pauseSceneBuilder := Some 6\<rparr>" 5 6 quiet "num 22"]
    both_builders_consumed [of "stage0\<lparr>welcomeSceneBuilder := Some 5\<rparr>" 5 6 quiet "num 22"]
  by (simp add: both_pending_def both_consumed_def stage0_def quiet_def eval_render)

text \<open>
  Claim C2 as stated fails when both builders are pending: after the call the pause
  builder is cleared too, and its overlay 5 has replaced the welcome overlay 4.
\<close>

theorem pause_builder_not_kept_counterexample:
  "welcomeSceneBuilder both_pending = Some 5 \<and> pauseSceneBuilder both_pending = Some 6
   \<and> render quiet (num 22) both_pending = Some both_consumed
   \<and> pauseSceneBuilder both_consumed = None
   \<and> calls both_consumed
       = [NewOverlayScene 4, Build 5 4, NewOverlayScene 5, Build 6 5, Render (Overlay 5) (num 22)]"
  by (simp add: both_pending_def both_consumed_def stage0_def quiet_def eval_render)

subsection \<open>Timers, physics and event queues\<close>







text \<open>
  Claim C6, as amended. In every render call that reaches the world-update path and
  returns: after the physics step, every event of the one-time queue is executed exactly
  once, in queue order: first the events pending when the call started, in insertion
  order, then the events enqueued earlier in this same call (by the calls before the
  physics step and by the physics step itself), then those the one-time events enqueue
  themselves; the one-time queue is then emptied; then every repeat event is executed in
  insertion order and the repeat queue is left unchanged; camera adjustment and drawing
  come after both queues. The queue the call leaves holds exactly the events enqueued
  after the drain, by the repeat events, the camera adjustment and the drawing calls.
  So an event enqueued after the drain of frame N, or between two calls, is executed
  exactly once in the next call that reaches the world-update path and is gone from the
  queue after it, while an event enqueued in frame N before the drain is executed in
  frame N. The call returns whenever no one-time event enqueues another one.
\<close>

theorem event_queues_in_frame:
  assumes "overlay s = None" "welcomeSceneBuilder s = None" "pauseSceneBuilder s = None"
  shows "((\<forall>e. pushed E (OneTimeEvent e) = []) \<longrightarrow> (\<exists>s'. render E elapsedTime s = Some s'))
    \<and> (\<forall>s'. render E elapsedTime s = Some s' \<longrightarrow> (\<exists>tc Q.
        calls s' = calls s @ (SetFrameColor (backgroundColor s) # musicCalls s @ tc
           @ [HandleTilt (ident (world s)) (fst (accelerometer E)) (snd (accelerometer E)),
              AdvanceWorld (ident (world s)) (ddiv (num 1) (num 45)) 8 3])
           @ map OneTimeEvent Q @ map RepeatEvent (repeatEvents (world s))
           @ drawCalls s elapsedTime
      \<and> (\<forall>c\<in>set tc. levelEnd c)
      \<and> Q = oneTimeEvents (world s)
             @ concat (map (pushed E) (SetFrameColor (backgroundColor s) # musicCalls s @ tc
                 @ [HandleTilt (ident (world s)) (fst (accelerometer E)) (snd (accelerometer E)),
                    AdvanceWorld (ident (world s)) (ddiv (num 1) (num 45)) 8 3]))
             @ concat (map (\<lambda>e. pushed E (OneTimeEvent e)) Q)
      \<and> oneTimeEvents (world s')
           = concat (map (pushed E)
               (map RepeatEvent (repeatEvents (world s)) @ drawCalls s elapsedTime))
      \<and> repeatEvents (world s') = repeatEvents (world s)))"
proof (intro conjI allI impI)
  assume "\<forall>e. pushed E (OneTimeEvent e) = []"
  then show "\<exists>s'. render E elapsedTime s = Some s'" by (rule render_returns)
next
  fix s' assume ret: "render E elapsedTime s = Some s'"
  from render_world_path [OF assms ret]
  show "\<exists>tc Q.
        calls s' = calls s @ (SetFrameColor (backgroundColor s) # musicCalls s @ tc
           @ [HandleTilt (ident (world s)) (fst (accelerometer E)) (snd (accelerometer E)),
              AdvanceWorld (ident (world s)) (ddiv (num 1) (num 45)) 8 3])
           @ map OneTimeEvent Q @ map RepeatEvent (repeatEvents (world s))
           @ drawCalls s elapsedTime
      \<and> (\<forall>c\<in>set tc. levelEnd c)
      \<and> Q = oneTimeEvents (world s)
             @ concat (map (pushed E) (SetFrameColor (backgroundColor s) # musicCalls s @ tc
                 @ [HandleTilt (ident (world s)) (fst (accelerometer E)) (snd (accelerometer E)),
                    AdvanceWorld (ident (world s)) (ddiv (num 1) (num 45)) 8 3]))
             @ concat (map (\<lambda>e. pushed E (OneTimeEvent e)) Q)
      \<and> oneTimeEvents (world s')
           = concat (map (pushed E)
               (map RepeatEvent (repeatEvents (world s)) @ drawCalls s elapsedTime))
      \<and> repeatEvents (world s') = repeatEvents (world s)"
    by blast
qed

theorem event_queues_in_frame_witness:
  "overlay queued = None \<and> welcomeSceneBuilder queued = None \<and> pauseSceneBuilder queued = None
   \<and> (\<forall>e. pushed contact (OneTimeEvent e) = [])
   \<and> pushed contact (AdvanceWorld 0 (ddiv (num 1) (num 45)) 8 3) = [9]
   \<and> pushed contact (RepeatEvent 3) = [8]
   \<and> render contact (num 22) queued = Some queued_after
   \<and> oneTimeEvents (world queued) = [1, 2] \<and> repeatEvents (world queued) = [3, 4]
   \<and> calls queued_after
       = [SetFrameColor 16777215, HandleTilt 0 0 0, AdvanceWorld 0 (ddiv (num 1) (num 45)) 8 3,
          OneTimeEvent 1, OneTimeEvent 2, OneTimeEvent 9, RepeatEvent 3, RepeatEvent 4,
          AdjustCamera 0, BackgroundRender 2 (num 22), Render (World 0) (num 22),
          ForegroundRender 3 (num 22), Render (Hud 1) (num 22)]
   \<and> oneTimeEvents (world queued_after) = [8]
   \<and> repeatEvents (world queued_after) = [3, 4]"
  using event_queues_in_frame [of queued contact "num 22"] render_queued
  by (simp add: queued_def queued_after_def stage0_def contact_def quiet_def)

text \<open>
  Claim C6 as stated fails for an event enqueued during the physics step of frame N: the
  event 9, enqueued by the physics step of a frame that starts with an empty queue, is
  executed in that same frame, which leaves the queue empty, and is not executed in
  frame N+1.
\<close>

theorem enqueued_in_physics_step_counterexample:
  "oneTimeEvents (world stage0) = []
   \<and> pushed contact (AdvanceWorld 0 (ddiv (num 1) (num 45)) 8 3) = [9]
   \<and> render contact (num 22) stage0 = Some frame_N
   \<and> calls frame_N
       = [SetFrameColor 16777215, HandleTilt 0 0 0, AdvanceWorld 0 (ddiv (num 1) (num 45)) 8 3,
          OneTimeEvent 9,
          AdjustCamera 0, BackgroundRender 2 (num 22), Render (World 0) (num 22),
          ForegroundRender 3 (num 22), Render (Hud 1) (num 22)]
   \<and> oneTimeEvents (world frame_N) = []
   \<and> render quiet (num 22) frame_N = Some frame_N1
   \<and> OneTimeEvent 9 \<notin> set (drop (length (calls frame_N)) (calls frame_N1))"
  by (simp add: frame_N_def frame_N1_def stage0_def contact_def quiet_def eval_render)

subsection \<open>Resetting the stage\<close>

lemma onScreenChange_Inr:
  assumes "musicPlaying s \<longrightarrow> music s \<noteq> None"
  shows "\<exists>s1. onScreenChange E s = Inr s1 \<and> perLevelDefaults E (next_obj s) s1
     \<and> overlay s1 = overlay s \<and> debugMode s1 = debugMode s \<and> ended s1 = ended s
     \<and> calls s1 = calls s @ stopCalls s @ resetCalls (next_obj s)"
  using assms
  by (auto simp add: onScreenChange_def stopMusic_def Let_def perLevelDefaults_def reset_def
      resetCalls_def stopCalls_def new_WorldScene_def push_def split: option.splits)

text \<open>
  What \<open>onScreenChange\<close> resets. After every \<open>onScreenChange()\<close> call made in a state that
  has a music handle whenever music is marked as playing, every field of the stage other
  than the overlay and the debug flag has the value \<open>perLevelDefaults\<close> gives it, which
  depends on nothing of the state before the call but the number of the next new object:
  the music is stopped and cleared, the projectile pool is cleared,
  \<open>gestureHudFirst = true\<close>, \<open>backgroundColor = 0xFFFFFF\<close>, the four scene builders are null,
  the timers of the Score are at the sentinel \<open>-100\<close>, the level facts of the storage are
  cleared, and a new WorldScene with empty event queues, a new HUD, background and
  foreground have been constructed. The overlay is left as it was. A second call right
  after the first yields the same defaults again, with four further new scenes.
\<close>

lemma onScreenChange_resets:
  assumes "musicPlaying s \<longrightarrow> music s \<noteq> None"
  shows "\<exists>s1 s2.
      onScreenChange E s = Inr s1 \<and> perLevelDefaults E (next_obj s) s1
    \<and> overlay s1 = overlay s
    \<and> calls s1 = calls s @ stopCalls s @ resetCalls (next_obj s)
    \<and> onScreenChange E' s1 = Inr s2 \<and> perLevelDefaults E' (next_obj s + 4) s2
    \<and> overlay s2 = overlay s
    \<and> calls s2 = calls s1 @ resetCalls (next_obj s + 4)"
proof -
  from onScreenChange_Inr [OF assms] obtain s1 where
    s1: "onScreenChange E s = Inr s1" "perLevelDefaults E (next_obj s) s1"
    "overlay s1 = overlay s" "calls s1 = calls s @ stopCalls s @ resetCalls (next_obj s)"
    by blast
  from s1(2) have idle: "musicPlaying s1 \<longrightarrow> music s1 \<noteq> None" "next_obj s1 = next_obj s + 4"
    "stopCalls s1 = []"
    by (simp_all add: perLevelDefaults_def stopCalls_def)
  from onScreenChange_Inr [OF idle(1), of E'] obtain s2 where
    "onScreenChange E' s1 = Inr s2" "perLevelDefaults E' (next_obj s1) s2"
    "overlay s2 = overlay s1" "calls s2 = calls s1 @ stopCalls s1 @ resetCalls (next_obj s1)"
    by blast
  with s1 idle show ?thesis by simp
qed

lemma render_lose_scene_pending:
  "render quiet (num 600) lose_scene_pending = Some lose_scene_shown"
  by (simp add: lose_scene_pending_def lose_scene_shown_def half_second_def stage0_def
      quiet_def eval_render)

text \<open>
  Claim C8 does not hold of the code: \<open>onScreenChange\<close> does not reset the transient
  overlay. The level whose lose countdown ran out in a frame of 600 ms shows the lose
  scene as overlay 4. \<open>onScreenChange\<close> on that stage resets every other field, the timers
  of the Score are back at \<open>-100\<close> and four new scenes 5 to 8 are constructed, but the
  overlay is still overlay 4 of the level left behind, also after a second
  \<open>onScreenChange\<close>; and the next frame draws that overlay alone, with no physics step and
  no drawing of the new world.
\<close>

theorem onScreenChange_keeps_overlay:
  "render quiet (num 600) lose_scene_pending = Some lose_scene_shown
   \<and> overlay lose_scene_shown = Some 4
   \<and> onScreenChange quiet lose_scene_shown = Inr after_screen_change
   \<and> perLevelDefaults quiet 5 after_screen_change
   \<and> winCountRemaining (score after_screen_change) = num (- 100)
   \<and> overlay after_screen_change = Some 4
   \<and> onScreenChange quiet after_screen_change = Inr after_second_change
   \<and> perLevelDefaults quiet 9 after_second_change
   \<and> overlay after_second_change = Some 4
   \<and> render quiet (num 22) after_screen_change
       = Some (after_screen_change
                 \<lparr>calls := calls after_screen_change @ [Render (Overlay 4) (num 22)]\<rparr>)"
  using render_lose_scene_pending
  by (simp add: after_screen_change_def after_second_change_def lose_scene_shown_def
      stage0_def quiet_def onScreenChange_def stopMusic_def Let_def perLevelDefaults_def
      reset_def resetCalls_def new_WorldScene_def invoke_def push_def record_call_def
      render_def sceneBuilders_def)

text \<open>
  With music marked as playing and no music handle (the handle was set, played, and then
  set to null), \<open>stopMusic\<close> raises inside \<open>onScreenChange\<close> before anything else is
  reset: the win-scene builder is still set.
\<close>

lemma onScreenChange_without_music_handle:
  "onScreenChange quiet
     (setWinSceneBuilder (Some 8) (setMusic None (playMusic quiet (setMusic (Some 11) stage0))))
   = Inl (TypeError, stage0\<lparr>winSceneBuilder := Some 8,
                            calls := [MusicPlay 11, ConsoleLog ''stopping music'']\<rparr>)"
  by (simp add: stage0_def quiet_def onScreenChange_def stopMusic_def playMusic_def
      setMusic_def setWinSceneBuilder_def Let_def invoke_def push_def record_call_def)

subsection \<open>Music\<close>

text \<open>
  Starting the music twice plays it once; stopping music that is not playing does
  nothing; pausing music that plays stops the handle.
\<close>

lemma playMusic_twice:
  "music s = Some m \<Longrightarrow> \<not> musicPlaying s \<Longrightarrow>
   calls (playMusic E' (playMusic E s)) = calls s @ [MusicPlay m]"
  by (simp add: playMusic_def)

lemma stopMusic_stopped: "\<not> musicPlaying s \<Longrightarrow> stopMusic E s = Inr s"
  by (simp add: stopMusic_def)

lemma pauseMusic_playing:
  "music s = Some m \<Longrightarrow> musicPlaying s \<Longrightarrow>
   pauseMusic E s = Inr (invoke E (MusicStop m) (s\<lparr>musicPlaying := False\<rparr>))"
  by (simp add: pauseMusic_def)

end
